theory Spec2Isabelle
  imports Complex_Main
begin

section \<open>Python values\<close>

text \<open>
  The functions of the repository take arguments typed \<open>Any\<close> and branch on
  \<open>isinstance\<close>. The values they can tell apart are modelled by one datatype.
  A \<open>str\<close> is a \<open>string\<close> whose characters are code points below 256, which
  covers every literal of the sources (the degree sign is code point 176).
  A float is either a finite value, written as the rational it denotes, or one of
  the special values; comparisons between floats and ints are exact in Python, so
  they are defined on these values. Float arithmetic and float rendering round,
  and are taken as parameters (record \<open>builtins\<close> below).
\<close>

datatype pyfloat = Finite rat | NegZero | PosInf | NegInf | NaN

datatype pyval =
    PNone
  | PBool bool
  | PInt int
  | PFloat pyfloat
  | PStr string
  | PList "pyval list"
  | PDict "(pyval \<times> pyval) list"

text \<open>
  \<open>isinstance(x, (int, float))\<close>: ints, floats, and bools (\<open>bool\<close> is a subclass of
  \<open>int\<close>, with \<open>True == 1\<close> and \<open>False == 0\<close>).
\<close>

datatype num = IntVal int | FloatVal pyfloat

fun as_number :: "pyval \<Rightarrow> num option" where
  "as_number (PBool b) = Some (IntVal (if b then 1 else 0))"
| "as_number (PInt i) = Some (IntVal i)"
| "as_number (PFloat f) = Some (FloatVal f)"
| "as_number _ = None"

definition is_number :: "pyval \<Rightarrow> bool" where
  "is_number x = (as_number x \<noteq> None)"

fun is_float :: "pyval \<Rightarrow> bool" where
  "is_float (PFloat f) = True"
| "is_float _ = False"

fun int_of :: "pyval \<Rightarrow> int" where
  "int_of (PBool b) = (if b then 1 else 0)"
| "int_of (PInt i) = i"
| "int_of _ = 0"

text \<open>Comparison of a number with an int constant: \<open>x < b\<close>, \<open>x > b\<close>, \<open>x >= b\<close>.\<close>

fun num_lt_int :: "num \<Rightarrow> int \<Rightarrow> bool" where
  "num_lt_int (IntVal a) b = (a < b)"
| "num_lt_int (FloatVal (Finite q)) b = (q < of_int b)"
| "num_lt_int (FloatVal NegZero) b = (0 < b)"
| "num_lt_int (FloatVal PosInf) b = False"
| "num_lt_int (FloatVal NegInf) b = True"
| "num_lt_int (FloatVal NaN) b = False"

fun num_gt_int :: "num \<Rightarrow> int \<Rightarrow> bool" where
  "num_gt_int (IntVal a) b = (b < a)"
| "num_gt_int (FloatVal (Finite q)) b = (of_int b < q)"
| "num_gt_int (FloatVal NegZero) b = (b < 0)"
| "num_gt_int (FloatVal PosInf) b = True"
| "num_gt_int (FloatVal NegInf) b = False"
| "num_gt_int (FloatVal NaN) b = False"

fun num_ge_int :: "num \<Rightarrow> int \<Rightarrow> bool" where
  "num_ge_int (IntVal a) b = (b \<le> a)"
| "num_ge_int (FloatVal (Finite q)) b = (of_int b \<le> q)"
| "num_ge_int (FloatVal NegZero) b = (b \<le> 0)"
| "num_ge_int (FloatVal PosInf) b = True"
| "num_ge_int (FloatVal NegInf) b = False"
| "num_ge_int (FloatVal NaN) b = False"

text \<open>The builtin \<open>abs\<close>.\<close>

fun num_abs :: "num \<Rightarrow> num" where
  "num_abs (IntVal a) = IntVal \<bar>a\<bar>"
| "num_abs (FloatVal (Finite q)) = FloatVal (Finite \<bar>q\<bar>)"
| "num_abs (FloatVal NegZero) = FloatVal (Finite 0)"
| "num_abs (FloatVal PosInf) = FloatVal PosInf"
| "num_abs (FloatVal NegInf) = FloatVal PosInf"
| "num_abs (FloatVal NaN) = FloatVal NaN"

section \<open>Exceptions\<close>

text \<open>
  \<open>except Exception\<close> catches the instances of \<open>Exception\<close>; \<open>SystemExit\<close>,
  \<open>KeyboardInterrupt\<close>, \<open>GeneratorExit\<close> and other direct subclasses of
  \<open>BaseException\<close> are not caught. The classes below \<open>Exception\<close> form a type
  of their own, so that what a builtin raises is an instance of \<open>Exception\<close> by
  its type.
\<close>

datatype exception_class =
    ValueError | TypeError | AttributeError | RecursionError | OverflowError
  | UnicodeEncodeError | OSError | OtherException string

datatype exc_class =
    Exc exception_class
  | SystemExit | KeyboardInterrupt | GeneratorExit | OtherBaseException string

text \<open>
  An exception object: its class and what \<open>str(e)\<close> gives, which is a message,
  or, for a class whose \<open>__str__\<close> raises, the exception raised there.
\<close>

datatype pyexc = PyExc exc_class string | PyExcBadStr exc_class pyexc

fun is_Exception :: "exc_class \<Rightarrow> bool" where
  "is_Exception (Exc c) = True"
| "is_Exception _ = False"

fun exc_class_of :: "pyexc \<Rightarrow> exc_class" where
  "exc_class_of (PyExc c msg) = c"
| "exc_class_of (PyExcBadStr c x) = c"

fun exc_str :: "pyexc \<Rightarrow> pyexc + string" where
  "exc_str (PyExc c msg) = Inr msg"
| "exc_str (PyExcBadStr c x) = Inl x"

text \<open>What a builtin raises: the class, below \<open>Exception\<close>, and the message.\<close>

type_synonym failure = "exception_class \<times> string"

definition raise_failure :: "failure \<Rightarrow> pyexc" where
  "raise_failure f = PyExc (Exc (fst f)) (snd f)"

section \<open>Strings\<close>

text \<open>
  Decimal rendering of ints. Lengths and stage numbers are rendered with it
  directly: they are bounded by the size of a list in memory.
\<close>

definition digit_char :: "nat \<Rightarrow> char" where
  "digit_char d = ''0123456789'' ! d"

fun str_of_nat :: "nat \<Rightarrow> string" where
  "str_of_nat n =
     (if n < 10 then [digit_char n] else str_of_nat (n div 10) @ [digit_char (n mod 10)])"

declare str_of_nat.simps [simp del]

definition str_of_int :: "int \<Rightarrow> string" where
  "str_of_int i = (if i < 0 then CHR ''-'' # str_of_nat (nat (- i)) else str_of_nat (nat i))"

text \<open>
  CPython refuses to convert an int of more than 4300 decimal digits to a
  string (the default of \<open>sys.set_int_max_str_digits\<close>): \<open>str\<close> and the f-string
  fields raise \<open>ValueError\<close> with the message below.
\<close>

definition int_str_limit :: int where
  "int_str_limit = 10 ^ 4300"

definition int_limit_message :: string where
  "int_limit_message =
     ''Exceeds the limit (4300 digits) for integer string conversion; use sys.set_int_max_str_digits() to increase the limit''"

text \<open>\<open>sub in s\<close> for strings: \<open>sub\<close> occurs in \<open>s\<close> as a contiguous run.\<close>

definition starts_with :: "string \<Rightarrow> string \<Rightarrow> bool" where
  "starts_with s p = (take (length p) s = p)"

fun str_contains :: "string \<Rightarrow> string \<Rightarrow> bool" where
  "str_contains sub [] = (sub = [])"
| "str_contains sub (c # cs) = (starts_with (c # cs) sub \<or> str_contains sub cs)"

text \<open>\<open>s.split(sep)\<close> for a separator of one character.\<close>

fun py_split :: "char \<Rightarrow> string \<Rightarrow> string list" where
  "py_split sep [] = [[]]"
| "py_split sep (c # cs) =
     (if c = sep then [] # py_split sep cs
      else (case py_split sep cs of
              [] \<Rightarrow> [[c]]
            | f # fs \<Rightarrow> (c # f) # fs))"

text \<open>
  \<open>s.lower()\<close> on code points below 256: the ASCII capitals and the Latin-1
  capitals 192 to 222, the multiplication sign 215 apart, move up by 32.
\<close>

definition lower_char :: "char \<Rightarrow> char" where
  "lower_char c =
     (let n = of_char c :: nat in
      if (65 \<le> n \<and> n \<le> 90) \<or> (192 \<le> n \<and> n \<le> 222 \<and> n \<noteq> 215)
      then char_of (n + 32) else c)"

definition py_lower :: "string \<Rightarrow> string" where
  "py_lower s = map lower_char s"

definition degree_sign :: string where
  "degree_sign = [CHR 0xB0]"

text \<open>A text between double quotes, as the f-strings of \<open>InputStage\<close> write it.\<close>

definition quoted :: "string \<Rightarrow> string" where
  "quoted s = CHR 0x22 # s @ [CHR 0x22]"

section \<open>Builtins taken as parameters\<close>

text \<open>
  What the code asks of floating-point arithmetic, of \<open>repr\<close> and of the
  console: the rendering \<open>str(x)\<close> of floats, lists and dicts, which can raise
  (\<open>RecursionError\<close> on a deeply nested value, \<open>ValueError\<close> on a list that
  holds a long int); \<open>sum\<close> of a list that holds a float; the true division
  \<open>total / count\<close> for \<open>count > 0\<close>; the format \<open>.1f\<close>; and \<open>print\<close>, which
  either writes the line or raises (\<open>UnicodeEncodeError\<close> for a text the
  console cannot encode, \<open>OSError\<close> for a closed stream). The two arithmetic
  operations can raise \<open>OverflowError\<close> (an int too large for a float); their
  \<open>Inl\<close> carries the message \<open>str(e)\<close> of that exception.
\<close>

record builtins =
  str_other :: "pyval \<Rightarrow> failure + string"
  float_sum :: "pyval list \<Rightarrow> string + pyfloat"
  true_div :: "pyval \<Rightarrow> nat \<Rightarrow> string + pyfloat"
  format_1f :: "pyfloat \<Rightarrow> string"
  py_print :: "string \<Rightarrow> failure option"

text \<open>\<open>str(v)\<close>, which is also what an f-string field without format gives.\<close>

definition py_str :: "builtins \<Rightarrow> pyval \<Rightarrow> failure + string" where
  "py_str B v =
     (case v of
        PNone \<Rightarrow> Inr ''None''
      | PBool b \<Rightarrow> Inr (if b then ''True'' else ''False'')
      | PInt i \<Rightarrow>
          (if int_str_limit \<le> \<bar>i\<bar> then Inl (ValueError, int_limit_message)
           else Inr (str_of_int i))
      | PStr s \<Rightarrow> Inr s
      | _ \<Rightarrow> str_other B v)"

text \<open>
  \<open>sum(xs)\<close> on a list of numbers: exact on ints and bools, the parameter as soon
  as a float takes part.
\<close>

definition py_sum :: "builtins \<Rightarrow> pyval list \<Rightarrow> string + pyval" where
  "py_sum B xs =
     (if list_ex is_float xs
      then (case float_sum B xs of Inl msg \<Rightarrow> Inl msg | Inr f \<Rightarrow> Inr (PFloat f))
      else Inr (PInt (sum_list (map int_of xs))))"

text \<open>\<open>total / count\<close>: raises \<open>ZeroDivisionError\<close> when \<open>count\<close> is 0.\<close>

definition py_truediv :: "builtins \<Rightarrow> pyval \<Rightarrow> nat \<Rightarrow> string + pyfloat" where
  "py_truediv B tot count =
     (if count = 0
      then Inl (if is_float tot then ''float division by zero'' else ''division by zero'')
      else true_div B tot count)"

section \<open>ex1: the streams\<close>

text \<open>
  The three concrete subclasses of \<open>DataStream\<close>; the argument is the
  \<open>stream_id\<close>. A batch is a Python list, a criterion is \<open>Optional[str]\<close>.
  Every \<open>process_batch\<close> wraps its body in \<open>try ... except Exception as e\<close>
  and returns an error string built from \<open>str(e)\<close>; what can raise in the
  bodies is the arithmetic and the rendering of the net flow, and both raise
  instances of \<open>Exception\<close> only.
\<close>

datatype stream = SensorStream string | TransactionStream string | EventStream string

fun stream_id :: "stream \<Rightarrow> string" where
  "stream_id (SensorStream sid) = sid"
| "stream_id (TransactionStream sid) = sid"
| "stream_id (EventStream sid) = sid"

definition SensorStream_process_batch :: "builtins \<Rightarrow> pyval list \<Rightarrow> string" where
  "SensorStream_process_batch B data_batch =
     (if data_batch = [] then ''No data processed''
      else
        (let valid_data = filter is_number data_batch;
             count = length valid_data
         in if count = 0 then ''No valid numeric data''
            else
              (case py_sum B valid_data of
                 Inl msg \<Rightarrow> ''Error processing sensor batch: '' @ msg
               | Inr tot \<Rightarrow>
                   (case py_truediv B tot count of
                      Inl msg \<Rightarrow> ''Error processing sensor batch: '' @ msg
                    | Inr avg \<Rightarrow>
                        ''Sensor data: '' @ str_of_nat count
                          @ '' readings processed, avg temp: '' @ format_1f B avg
                          @ degree_sign @ ''C''))))"

definition sensor_high_priority :: "pyval \<Rightarrow> bool" where
  "sensor_high_priority x =
     (case as_number x of
        None \<Rightarrow> False
      | Some n \<Rightarrow> num_gt_int n 50 \<or> num_lt_int n 0)"

definition SensorStream_filter_data :: "pyval list \<Rightarrow> string option \<Rightarrow> pyval list" where
  "SensorStream_filter_data data_batch criteria =
     (if criteria = Some ''High-priority''
      then filter sensor_high_priority data_batch
      else data_batch)"

definition net_flow_sign :: "pyval \<Rightarrow> string" where
  "net_flow_sign net_flow =
     (if (case as_number net_flow of None \<Rightarrow> False | Some n \<Rightarrow> num_ge_int n 0)
      then ''+'' else [])"

definition TransactionStream_process_batch :: "builtins \<Rightarrow> pyval list \<Rightarrow> string" where
  "TransactionStream_process_batch B data_batch =
     (let valid_data = filter is_number data_batch;
          count = length valid_data
      in case py_sum B valid_data of
           Inl msg \<Rightarrow> ''Error processing transaction batch: '' @ msg
         | Inr net_flow \<Rightarrow>
             (case py_str B net_flow of
                Inl f \<Rightarrow> ''Error processing transaction batch: '' @ snd f
              | Inr rendered \<Rightarrow>
                  ''Transaction data: '' @ str_of_nat count
                    @ '' operations, net flow: '' @ net_flow_sign net_flow @ rendered
                    @ '' units''))"

definition transaction_high_priority :: "pyval \<Rightarrow> bool" where
  "transaction_high_priority x =
     (case as_number x of
        None \<Rightarrow> False
      | Some n \<Rightarrow> num_ge_int (num_abs n) 100)"

definition TransactionStream_filter_data :: "pyval list \<Rightarrow> string option \<Rightarrow> pyval list" where
  "TransactionStream_filter_data data_batch criteria =
     (if criteria = Some ''High-priority''
      then filter transaction_high_priority data_batch
      else data_batch)"

fun is_error_event :: "pyval \<Rightarrow> bool" where
  "is_error_event (PStr s) = str_contains ''error'' (py_lower s)"
| "is_error_event _ = False"

definition EventStream_process_batch :: "pyval list \<Rightarrow> string" where
  "EventStream_process_batch data_batch =
     (let count = length data_batch;
          errors = length (filter is_error_event data_batch)
      in ''Event data: '' @ str_of_nat count @ '' events, '' @ str_of_nat errors
           @ '' error detected'')"

definition EventStream_filter_data :: "pyval list \<Rightarrow> string option \<Rightarrow> pyval list" where
  "EventStream_filter_data data_batch criteria =
     (if criteria = Some ''High-priority''
      then filter is_error_event data_batch
      else data_batch)"

text \<open>Method dispatch on the class of the stream.\<close>

fun process_batch :: "builtins \<Rightarrow> stream \<Rightarrow> pyval list \<Rightarrow> string" where
  "process_batch B (SensorStream sid) b = SensorStream_process_batch B b"
| "process_batch B (TransactionStream sid) b = TransactionStream_process_batch B b"
| "process_batch B (EventStream sid) b = EventStream_process_batch b"

fun filter_data :: "stream \<Rightarrow> pyval list \<Rightarrow> string option \<Rightarrow> pyval list" where
  "filter_data (SensorStream sid) b c = SensorStream_filter_data b c"
| "filter_data (TransactionStream sid) b c = TransactionStream_filter_data b c"
| "filter_data (EventStream sid) b c = EventStream_filter_data b c"

text \<open>
  \<open>StreamProcessor.process_streams\<close> walks \<open>self.streams\<close> in order; for a stream
  whose \<open>stream_id\<close> is a key of \<open>data_map\<close> it prints the result of
  \<open>process_batch\<close>. It returns \<open>None\<close>; the model returns the lines printed.
\<close>

fun process_streams ::
  "builtins \<Rightarrow> stream list \<Rightarrow> (string \<rightharpoonup> pyval list) \<Rightarrow> string list" where
  "process_streams B [] data_map = []"
| "process_streams B (s # streams) data_map =
     (case data_map (stream_id s) of
        None \<Rightarrow> process_streams B streams data_map
      | Some data \<Rightarrow> process_batch B s data # process_streams B streams data_map)"

section \<open>ex2: stages and the pipeline\<close>

text \<open>
  A computation of ex2 returns a value or raises, and prints lines on the way:
  its result and the lines it has written to the console, in order.
  A stage is any object with a \<open>process\<close> method (the protocol
  \<open>ProcessingStage\<close>).
\<close>

type_synonym 'a io = "(pyexc + 'a) \<times> string list"

type_synonym stage = "pyval \<Rightarrow> pyval io"

text \<open>\<open>print(line)\<close> followed by \<open>return v\<close>.\<close>

definition print_then :: "builtins \<Rightarrow> string \<Rightarrow> 'a \<Rightarrow> 'a io" where
  "print_then B line v =
     (case py_print B line of
        Some f \<Rightarrow> (Inl (raise_failure f), [])
      | None \<Rightarrow> (Inr v, [line]))"

text \<open>\<open>data.get(key)\<close> for a string key: the value, or \<open>None\<close>.\<close>

definition dict_get :: "(pyval \<times> pyval) list \<Rightarrow> string \<Rightarrow> pyval" where
  "dict_get kvs k = (case map_of kvs (PStr k) of None \<Rightarrow> PNone | Some v \<Rightarrow> v)"

text \<open>
  \<open>InputStage.process\<close>. For a dict it renders the three fields \<open>sensor\<close>,
  \<open>value\<close>, \<open>unit\<close> in this order, each of which can raise, and prints them
  between braces; for a string it prints it, between quotes when it contains
  \<open>user\<close>; it prints nothing for any other value. It returns the data.
\<close>

definition InputStage_line :: "builtins \<Rightarrow> pyval \<Rightarrow> failure + string option" where
  "InputStage_line B data =
     (case data of
        PDict kvs \<Rightarrow>
          (case py_str B (dict_get kvs ''sensor'') of
             Inl f \<Rightarrow> Inl f
           | Inr s \<Rightarrow>
               (case py_str B (dict_get kvs ''value'') of
                  Inl f \<Rightarrow> Inl f
                | Inr v \<Rightarrow>
                    (case py_str B (dict_get kvs ''unit'') of
                       Inl f \<Rightarrow> Inl f
                     | Inr u \<Rightarrow>
                         Inr (Some (''Input: {'' @ quoted ''sensor'' @ '': '' @ quoted s
                                      @ '', '' @ quoted ''value'' @ '': '' @ v
                                      @ '', '' @ quoted ''unit'' @ '': '' @ quoted u
                                      @ ''}'')))))
      | PStr s \<Rightarrow>
          Inr (Some (if str_contains ''user'' s then ''Input: '' @ quoted s
                     else ''Input: '' @ s))
      | _ \<Rightarrow> Inr None)"

definition InputStage :: "builtins \<Rightarrow> stage" where
  "InputStage B data =
     (case InputStage_line B data of
        Inl f \<Rightarrow> (Inl (raise_failure f), [])
      | Inr None \<Rightarrow> (Inr data, [])
      | Inr (Some line) \<Rightarrow> print_then B line data)"

text \<open>
  \<open>TransformStage.process\<close>: the value it returns, the line it prints before
  returning, and the two together.
\<close>

definition TransformStage_process :: "pyval \<Rightarrow> pyval" where
  "TransformStage_process data =
     (case data of
        PDict kvs \<Rightarrow> data
      | PStr s \<Rightarrow>
          (if CHR '','' \<in> set s then PList (map PStr (py_split CHR '','' s)) else data)
      | _ \<Rightarrow> data)"

definition TransformStage_line :: "pyval \<Rightarrow> string option" where
  "TransformStage_line data =
     (case data of
        PDict kvs \<Rightarrow> Some ''Transform: Enriched with metadata and validation''
      | PStr s \<Rightarrow>
          Some (if CHR '','' \<in> set s then ''Transform: Parsed and structured data''
                else ''Transform: Aggregated and filtered'')
      | _ \<Rightarrow> None)"

definition TransformStage :: "builtins \<Rightarrow> stage" where
  "TransformStage B data =
     (case TransformStage_line data of
        None \<Rightarrow> (Inr (TransformStage_process data), [])
      | Some line \<Rightarrow> print_then B line (TransformStage_process data))"

text \<open>
  \<open>OutputStage.process\<close> prints nothing. Rendering \<open>val\<close> and \<open>unit\<close> of a
  dict, in this order, and \<open>str(data)\<close> in the last branch can raise.
\<close>

definition OutputStage_process :: "builtins \<Rightarrow> pyval \<Rightarrow> failure + pyval" where
  "OutputStage_process B data =
     (case data of
        PDict kvs \<Rightarrow>
          (case py_str B (dict_get kvs ''value'') of
             Inl f \<Rightarrow> Inl f
           | Inr v \<Rightarrow>
               (case py_str B (dict_get kvs ''unit'') of
                  Inl f \<Rightarrow> Inl f
                | Inr u \<Rightarrow>
                    Inr (PStr (''Processed temperature reading: '' @ v @ degree_sign @ u
                                 @ '' (Normal range)''))))
      | PList xs \<Rightarrow>
          Inr (PStr (''User activity logged: '' @ str_of_int (int (length xs) - 2)
                       @ '' actions processed''))
      | PStr s \<Rightarrow> Inr (PStr (''Stream summary: 5 readings, avg: 22.1'' @ degree_sign @ ''C''))
      | _ \<Rightarrow> (case py_str B data of Inl f \<Rightarrow> Inl f | Inr s \<Rightarrow> Inr (PStr s)))"

definition OutputStage :: "builtins \<Rightarrow> stage" where
  "OutputStage B data =
     (case OutputStage_process B data of
        Inl f \<Rightarrow> (Inl (raise_failure f), [])
      | Inr v \<Rightarrow> (Inr v, []))"

definition three_stages :: "builtins \<Rightarrow> stage list" where
  "three_stages B = [InputStage B, TransformStage B, OutputStage B]"

text \<open>
  \<open>run_pipeline\<close>. The loop counts the stages from 1. The body of the \<open>try\<close>
  raises \<open>ValueError\<close> at \<open>i == 2\<close> on a string that contains \<open>FAIL_TEST\<close>, and
  calls the stage otherwise. Beside its result and the lines printed, the body
  gives the numbers of the stages whose \<open>process\<close> it has called: none when it
  raises before the call, \<open>i\<close> otherwise.
\<close>

fun is_fail_test :: "pyval \<Rightarrow> bool" where
  "is_fail_test (PStr s) = str_contains ''FAIL_TEST'' s"
| "is_fail_test _ = False"

definition try_body :: "nat \<Rightarrow> stage \<Rightarrow> pyval \<Rightarrow> (pyexc + pyval) \<times> nat list \<times> string list" where
  "try_body i stg current_data =
     (if i = 2 \<and> is_fail_test current_data
      then (Inl (PyExc (Exc ValueError) ''Invalid data format''), [], [])
      else (case stg current_data of (r, out) \<Rightarrow> (r, [i], out)))"

text \<open>
  The handler of \<open>except Exception as e\<close>: it prints the stage number with
  \<open>str(e)\<close>, then a second line, and returns the recovery string. \<open>str(e)\<close> and
  each \<open>print\<close> can raise; an exception raised in the handler leaves
  \<open>run_pipeline\<close>, whatever its class.
  The function has three ways out: the \<open>return current_data\<close> after the loop,
  the \<open>return\<close> of the handler, and an exception.
\<close>

definition recovery_message :: string where
  "recovery_message = ''Recovery successful: Pipeline restored, processing resumed''"

definition stage_error_line :: "nat \<Rightarrow> string \<Rightarrow> string" where
  "stage_error_line i msg = ''Error detected in Stage '' @ str_of_nat i @ '': '' @ msg"

definition recovery_line :: string where
  "recovery_line = ''Recovery initiated: Switching to backup processor''"

datatype outcome = Completed pyval | Recovered | Raised pyexc

definition handler :: "builtins \<Rightarrow> nat \<Rightarrow> pyexc \<Rightarrow> outcome \<times> string list" where
  "handler B i e =
     (case exc_str e of
        Inl x \<Rightarrow> (Raised x, [])
      | Inr msg \<Rightarrow>
          (case py_print B (stage_error_line i msg) of
             Some f \<Rightarrow> (Raised (raise_failure f), [])
           | None \<Rightarrow>
               (case py_print B recovery_line of
                  Some f \<Rightarrow> (Raised (raise_failure f), [stage_error_line i msg])
                | None \<Rightarrow> (Recovered, [stage_error_line i msg, recovery_line]))))"

text \<open>
  The loop: the way out, the numbers of the stages called and the lines printed.
\<close>

fun run_stages ::
  "builtins \<Rightarrow> stage list \<Rightarrow> nat \<Rightarrow> pyval \<Rightarrow> outcome \<times> nat list \<times> string list" where
  "run_stages B [] i current_data = (Completed current_data, [], [])"
| "run_stages B (stg # rest) i current_data =
     (case try_body i stg current_data of
        (Inr v, called, out) \<Rightarrow>
          (case run_stages B rest (Suc i) v of
             (oc, calls, out') \<Rightarrow> (oc, called @ calls, out @ out'))
      | (Inl e, called, out) \<Rightarrow>
          (if is_Exception (exc_class_of e)
           then (case handler B i e of (oc, out') \<Rightarrow> (oc, called, out @ out'))
           else (Raised e, called, out)))"

fun result_of :: "outcome \<Rightarrow> pyexc + pyval" where
  "result_of (Completed v) = Inr v"
| "result_of Recovered = Inr (PStr recovery_message)"
| "result_of (Raised e) = Inl e"

definition run_pipeline :: "builtins \<Rightarrow> stage list \<Rightarrow> pyval \<Rightarrow> pyexc + pyval" where
  "run_pipeline B stages data = result_of (fst (run_stages B stages 1 data))"

definition stages_called :: "builtins \<Rightarrow> stage list \<Rightarrow> pyval \<Rightarrow> nat list" where
  "stages_called B stages data = fst (snd (run_stages B stages 1 data))"

section \<open>Reference notions and sample inputs\<close>

text \<open>
  The specification's wording of the sensor filter, as a second definition to
  compare the code with: an item is kept when it is a number whose value lies
  outside the closed interval from \<open>lo\<close> to \<open>hi\<close>. The infinities lie outside
  every such interval; NaN has no value and lies nowhere.
\<close>

fun spec_outside_interval :: "rat \<Rightarrow> rat \<Rightarrow> pyval \<Rightarrow> bool" where
  "spec_outside_interval lo hi (PInt i) = (of_int i \<notin> {lo..hi})"
| "spec_outside_interval lo hi (PBool b) = ((if b then 1 else 0) \<notin> {lo..hi})"
| "spec_outside_interval lo hi (PFloat (Finite q)) = (q \<notin> {lo..hi})"
| "spec_outside_interval lo hi (PFloat NegZero) = (0 \<notin> {lo..hi})"
| "spec_outside_interval lo hi (PFloat PosInf) = True"
| "spec_outside_interval lo hi (PFloat NegInf) = True"
| "spec_outside_interval lo hi (PFloat NaN) = False"
| "spec_outside_interval lo hi _ = False"

text \<open>
  A stage in the sense of the protocol whose \<open>process\<close> raises the given
  exception, whatever the data, and prints nothing.
\<close>

definition raising_stage :: "pyexc \<Rightarrow> stage" where
  "raising_stage e data = (Inl e, [])"

text \<open>
  A table of builtins for runs on ints and strings, where no float is ever
  summed or divided, and a console that takes every line.
\<close>

definition plain_builtins :: builtins where
  "plain_builtins =
     \<lparr>str_other = (\<lambda>v. Inr ''?''), float_sum = (\<lambda>xs. Inl ''unsupported''),
      true_div = (\<lambda>t n. Inl ''unsupported''), format_1f = (\<lambda>f. ''?''),
      py_print = (\<lambda>line. None)\<rparr>"

text \<open>
  The same table with one float sum and one float rendering filled in as
  Python computes them: \<open>sum([1.5, 2])\<close> is \<open>3.5\<close>, and \<open>str(3.5)\<close> is \<open>3.5\<close>.
\<close>

definition float_sample_builtins :: builtins where
  "float_sample_builtins =
     plain_builtins
       \<lparr>str_other := (\<lambda>v. if v = PFloat (Finite (7 / 2)) then Inr ''3.5'' else Inr ''?''),
        float_sum := (\<lambda>xs. if xs = [PFloat (Finite (3 / 2)), PInt 2]
                            then Inr (Finite (7 / 2)) else Inl ''unsupported'')\<rparr>"

text \<open>A console that refuses exactly one line and takes every other.\<close>

definition rejecting :: "string \<Rightarrow> string \<Rightarrow> failure option" where
  "rejecting bad line = (if line = bad then Some (OSError, ''stream closed'') else None)"

section \<open>Auxiliary facts\<close>

lemma str_of_nat_digit: "n < 10 \<Longrightarrow> str_of_nat n = [digit_char n]"
  by (simp add: str_of_nat.simps)

lemma str_of_int_nat: "str_of_int (int n) = str_of_nat n"
  by (simp add: str_of_int_def)

text \<open>
  The limit is far above every number rendered in the examples. The power is
  compared, never computed.
\<close>

lemma int_str_limit_large: "10000 \<le> int_str_limit"
proof -
  have "(10000::int) = 10 ^ 4"
    by simp
  also have "\<dots> \<le> 10 ^ 4300"
    by (rule power_increasing) simp_all
  finally show ?thesis
    unfolding int_str_limit_def .
qed

lemma py_str_int:
  "\<bar>i\<bar> < int_str_limit \<Longrightarrow> py_str B (PInt i) = Inr (str_of_int i)"
  by (simp add: py_str_def)

lemma py_str_small_int:
  "\<bar>i\<bar> < 10000 \<Longrightarrow> py_str B (PInt i) = Inr (str_of_int i)"
  using int_str_limit_large by (intro py_str_int) linarith

lemma py_str_long_int:
  "int_str_limit \<le> \<bar>i\<bar> \<Longrightarrow> py_str B (PInt i) = Inl (ValueError, int_limit_message)"
  by (simp add: py_str_def)

text \<open>A split yields one field more than there are separators.\<close>

lemma length_py_split: "length (py_split sep s) = Suc (count_list s sep)"
  by (induction s) (auto split: list.splits)

lemma py_sum_float_free:
  "\<not> list_ex is_float xs \<Longrightarrow> py_sum B xs = Inr (PInt (sum_list (map int_of xs)))"
  by (simp add: py_sum_def)

lemma is_float_filter_number:
  "list_ex is_float (filter is_number xs) = list_ex is_float xs"
  by (induction xs) (auto simp: is_number_def elim: is_float.elims)

lemma sensor_no_valid_data:
  "filter is_number data_batch = [] \<Longrightarrow>
     SensorStream_process_batch B data_batch =
       (if data_batch = [] then ''No data processed'' else ''No valid numeric data'')"
  by (simp add: SensorStream_process_batch_def)

lemma sensor_high_priority_spec: "sensor_high_priority x = spec_outside_interval 0 50 x"
proof (cases x)
  case (PFloat f)
  then show ?thesis by (cases f) (auto simp: sensor_high_priority_def)
qed (auto simp: sensor_high_priority_def)

lemma process_streams_unknown:
  "k \<notin> stream_id ` set streams \<Longrightarrow>
     process_streams B streams (data_map(k \<mapsto> batch)) = process_streams B streams data_map"
  by (induction streams) (auto split: option.splits)

lemma process_streams_map:
  "process_streams B streams data_map =
     map (\<lambda>s. process_batch B s (the (data_map (stream_id s))))
       (filter (\<lambda>s. stream_id s \<in> dom data_map) streams)"
  by (induction streams) (auto split: option.splits)

text \<open>The handler never takes the way out of a completed loop.\<close>

lemma handler_not_Completed: "fst (handler B i e) \<noteq> Completed v"
  by (simp add: handler_def split: sum.splits option.splits)

text \<open>
  A run over \<open>pre @ rest\<close> whose first part completes continues on \<open>rest\<close>
  with the stage number moved on and the data the first part produced.
\<close>

lemma run_stages_append:
  "run_stages B pre i d = (Completed cur, calls, out) \<Longrightarrow>
     run_stages B (pre @ rest) i d =
       (case run_stages B rest (i + length pre) cur of
          (oc, calls', out') \<Rightarrow> (oc, calls @ calls', out @ out'))"
proof (induction pre arbitrary: i d calls out)
  case Nil
  then show ?case by (simp split: prod.splits)
next
  case (Cons stg pre)
  obtain r called pr where tb: "try_body i stg d = (r, called, pr)"
    by (cases "try_body i stg d") auto
  show ?case
  proof (cases r)
    case (Inl e)
    with tb Cons.prems handler_not_Completed[of B i e cur] show ?thesis
      by (auto split: if_splits prod.splits)
  next
    case (Inr v)
    obtain oc calls' out' where rs: "run_stages B pre (Suc i) v = (oc, calls', out')"
      by (cases "run_stages B pre (Suc i) v") auto
    with tb Inr Cons.prems have oc: "oc = Completed cur" and c: "calls = called @ calls'"
      and o: "out = pr @ out'"
      by auto
    from Cons.IH[OF rs[unfolded oc]] tb Inr c o show ?thesis
      by (simp split: prod.splits)
  qed
qed

text \<open>
  Every run either completes, or has a first stage whose \<open>try\<close> body raises
  after the stages before it have completed.
\<close>

lemma run_stages_first_fault:
  "(\<exists>v calls out. run_stages B stages i d = (Completed v, calls, out))
   \<or> (\<exists>pre stg post cur calls out e called out'.
         stages = pre @ stg # post
         \<and> run_stages B pre i d = (Completed cur, calls, out)
         \<and> try_body (i + length pre) stg cur = (Inl e, called, out'))"
proof (induction stages arbitrary: i d)
  case Nil
  then show ?case by simp
next
  case (Cons stg rest)
  obtain r called pr where tb: "try_body i stg d = (r, called, pr)"
    by (cases "try_body i stg d") auto
  show ?case
  proof (cases r)
    case (Inl e)
    have "stg # rest = [] @ stg # rest
          \<and> run_stages B [] i d = (Completed d, [], [])
          \<and> try_body (i + length ([] :: stage list)) stg d = (Inl e, called, pr)"
      using tb Inl by simp
    then show ?thesis by blast
  next
    case (Inr v)
    from Cons.IH[of "Suc i" v] show ?thesis
    proof (elim disjE exE conjE)
      fix w calls out
      assume "run_stages B rest (Suc i) v = (Completed w, calls, out)"
      with tb Inr show ?thesis by simp
    next
      fix pre stg' post cur calls out e called' out'
      assume a: "rest = pre @ stg' # post"
        and b: "run_stages B pre (Suc i) v = (Completed cur, calls, out)"
        and c: "try_body (Suc i + length pre) stg' cur = (Inl e, called', out')"
      have "stg # rest = (stg # pre) @ stg' # post
            \<and> run_stages B (stg # pre) i d = (Completed cur, called @ calls, pr @ out)
            \<and> try_body (i + length (stg # pre)) stg' cur = (Inl e, called', out')"
        using a b c tb Inr by simp
      then show ?thesis by blast
    qed
  qed
qed

text \<open>What the three stages of the repository return when they return.\<close>

lemma InputStage_returns: "InputStage B data = (Inr a, out) \<Longrightarrow> a = data"
  by (auto simp: InputStage_def print_then_def split: sum.splits option.splits)

lemma TransformStage_returns:
  "TransformStage B a = (Inr b, out) \<Longrightarrow> b = TransformStage_process a"
  by (auto simp: TransformStage_def print_then_def split: option.splits)

lemma OutputStage_returns:
  "OutputStage B b = (Inr c, out) \<Longrightarrow> OutputStage_process B b = Inr c \<and> out = []"
  by (auto simp: OutputStage_def split: sum.splits)

section \<open>The pipeline\<close>

text \<open>
  C1, as amended. The claim as written fails: \<open>except Exception\<close> does not catch
  an exception that derives from \<open>BaseException\<close> only, and the handler itself
  calls \<open>str(e)\<close> and \<open>print\<close>, which can raise. What holds, for every input
  value and every list of stages: when the stages before a stage have completed
  and the \<open>try\<close> body of that stage raises \<open>e\<close>, then
  \<^item> if \<open>e\<close> is not an instance of \<open>Exception\<close>, \<open>e\<close> reaches the caller;
  \<^item> if \<open>e\<close> is an instance of \<open>Exception\<close>, \<open>str(e)\<close> returns and the console
    takes the two lines of the handler, \<open>run_pipeline\<close> returns exactly the
    recovery string, and the stages called are those called up to the fault;
  \<^item> if \<open>e\<close> is an instance of \<open>Exception\<close> and \<open>str(e)\<close> or one of the two
    \<open>print\<close> calls of the handler raises, that exception reaches the caller.
  And \<open>run_pipeline\<close> raises in no other case: when an exception leaves it,
  the \<open>try\<close> body of some stage has raised after the stages before it completed.
\<close>

theorem run_pipeline_fault_handling:
  "(run_stages B pre 1 data = (Completed cur, calls, out)
      \<and> try_body (Suc (length pre)) stg cur = (Inl e, called, out')
    \<longrightarrow>
      (\<not> is_Exception (exc_class_of e) \<longrightarrow>
         run_pipeline B (pre @ stg # post) data = Inl e)
      \<and> (is_Exception (exc_class_of e) \<and> exc_str e = Inr msg
           \<and> py_print B (stage_error_line (Suc (length pre)) msg) = None
           \<and> py_print B recovery_line = None \<longrightarrow>
         run_pipeline B (pre @ stg # post) data =
           Inr (PStr ''Recovery successful: Pipeline restored, processing resumed'')
         \<and> stages_called B (pre @ stg # post) data = calls @ called)
      \<and> (is_Exception (exc_class_of e) \<and> exc_str e = Inl x \<longrightarrow>
         run_pipeline B (pre @ stg # post) data = Inl x)
      \<and> (is_Exception (exc_class_of e) \<and> exc_str e = Inr msg
           \<and> py_print B (stage_error_line (Suc (length pre)) msg) = Some f \<longrightarrow>
         run_pipeline B (pre @ stg # post) data = Inl (raise_failure f))
      \<and> (is_Exception (exc_class_of e) \<and> exc_str e = Inr msg
           \<and> py_print B (stage_error_line (Suc (length pre)) msg) = None
           \<and> py_print B recovery_line = Some f \<longrightarrow>
         run_pipeline B (pre @ stg # post) data = Inl (raise_failure f)))
   \<and> (run_pipeline B stages data = Inl y \<longrightarrow>
        (\<exists>pre stg post cur calls out e called out'.
           stages = pre @ stg # post
           \<and> run_stages B pre 1 data = (Completed cur, calls, out)
           \<and> try_body (Suc (length pre)) stg cur = (Inl e, called, out')))"
proof -
  have first: "run_stages B pre 1 data = (Completed cur, calls, out)
      \<and> try_body (Suc (length pre)) stg cur = (Inl e, called, out')
    \<longrightarrow>
      (\<not> is_Exception (exc_class_of e) \<longrightarrow>
         run_pipeline B (pre @ stg # post) data = Inl e)
      \<and> (is_Exception (exc_class_of e) \<and> exc_str e = Inr msg
           \<and> py_print B (stage_error_line (Suc (length pre)) msg) = None
           \<and> py_print B recovery_line = None \<longrightarrow>
         run_pipeline B (pre @ stg # post) data =
           Inr (PStr ''Recovery successful: Pipeline restored, processing resumed'')
         \<and> stages_called B (pre @ stg # post) data = calls @ called)
      \<and> (is_Exception (exc_class_of e) \<and> exc_str e = Inl x \<longrightarrow>
         run_pipeline B (pre @ stg # post) data = Inl x)
      \<and> (is_Exception (exc_class_of e) \<and> exc_str e = Inr msg
           \<and> py_print B (stage_error_line (Suc (length pre)) msg) = Some f \<longrightarrow>
         run_pipeline B (pre @ stg # post) data = Inl (raise_failure f))
      \<and> (is_Exception (exc_class_of e) \<and> exc_str e = Inr msg
           \<and> py_print B (stage_error_line (Suc (length pre)) msg) = None
           \<and> py_print B recovery_line = Some f \<longrightarrow>
         run_pipeline B (pre @ stg # post) data = Inl (raise_failure f))"
  proof (rule impI)
    assume pt: "run_stages B pre 1 data = (Completed cur, calls, out)
      \<and> try_body (Suc (length pre)) stg cur = (Inl e, called, out')"
    then have p: "run_stages B pre 1 data = (Completed cur, calls, out)"
      and t: "try_body (Suc (length pre)) stg cur = (Inl e, called, out')"
      by blast+
    have eq: "run_stages B (pre @ stg # post) 1 data =
           (if is_Exception (exc_class_of e)
            then (fst (handler B (Suc (length pre)) e), calls @ called,
                  out @ out' @ snd (handler B (Suc (length pre)) e))
            else (Raised e, calls @ called, out @ out'))"
      using p t by (simp add: run_stages_append split: prod.splits)
    show "(\<not> is_Exception (exc_class_of e) \<longrightarrow>
         run_pipeline B (pre @ stg # post) data = Inl e)
      \<and> (is_Exception (exc_class_of e) \<and> exc_str e = Inr msg
           \<and> py_print B (stage_error_line (Suc (length pre)) msg) = None
           \<and> py_print B recovery_line = None \<longrightarrow>
         run_pipeline B (pre @ stg # post) data =
           Inr (PStr ''Recovery successful: Pipeline restored, processing resumed'')
         \<and> stages_called B (pre @ stg # post) data = calls @ called)
      \<and> (is_Exception (exc_class_of e) \<and> exc_str e = Inl x \<longrightarrow>
         run_pipeline B (pre @ stg # post) data = Inl x)
      \<and> (is_Exception (exc_class_of e) \<and> exc_str e = Inr msg
           \<and> py_print B (stage_error_line (Suc (length pre)) msg) = Some f \<longrightarrow>
         run_pipeline B (pre @ stg # post) data = Inl (raise_failure f))
      \<and> (is_Exception (exc_class_of e) \<and> exc_str e = Inr msg
           \<and> py_print B (stage_error_line (Suc (length pre)) msg) = None
           \<and> py_print B recovery_line = Some f \<longrightarrow>
         run_pipeline B (pre @ stg # post) data = Inl (raise_failure f))"
      unfolding run_pipeline_def stages_called_def eq
      by (simp add: handler_def recovery_message_def)
  qed
  have second: "run_pipeline B stages data = Inl y \<longrightarrow>
        (\<exists>pre stg post cur calls out e called out'.
           stages = pre @ stg # post
           \<and> run_stages B pre 1 data = (Completed cur, calls, out)
           \<and> try_body (Suc (length pre)) stg cur = (Inl e, called, out'))"
  proof (rule impI)
    assume "run_pipeline B stages data = Inl y"
    then have "\<not> (\<exists>v calls out. run_stages B stages 1 data = (Completed v, calls, out))"
      by (auto simp: run_pipeline_def)
    with run_stages_first_fault[of B stages 1 data]
    show "\<exists>pre stg post cur calls out e called out'.
           stages = pre @ stg # post
           \<and> run_stages B pre 1 data = (Completed cur, calls, out)
           \<and> try_body (Suc (length pre)) stg cur = (Inl e, called, out')"
      by simp
  qed
  from first second show ?thesis by (rule conjI)
qed

theorem run_pipeline_fault_handling_witness:
  "run_pipeline plain_builtins
     [InputStage plain_builtins, raising_stage (PyExc (Exc TypeError) ''bad''),
      OutputStage plain_builtins] (PInt 7)
     = Inr (PStr ''Recovery successful: Pipeline restored, processing resumed'')
   \<and> stages_called plain_builtins
       [InputStage plain_builtins, raising_stage (PyExc (Exc TypeError) ''bad''),
        OutputStage plain_builtins] (PInt 7) = [1, 2]
   \<and> run_pipeline plain_builtins
       [InputStage plain_builtins, raising_stage (PyExc KeyboardInterrupt ''stop''),
        OutputStage plain_builtins] (PInt 7)
       = Inl (PyExc KeyboardInterrupt ''stop'')
   \<and> run_pipeline plain_builtins
       [InputStage plain_builtins,
        raising_stage (PyExcBadStr (Exc TypeError) (PyExc (Exc ValueError) ''no text'')),
        OutputStage plain_builtins] (PInt 7)
       = Inl (PyExc (Exc ValueError) ''no text'')
   \<and> run_pipeline (plain_builtins\<lparr>py_print := rejecting ''Error detected in Stage 2: bad''\<rparr>)
       [InputStage plain_builtins, raising_stage (PyExc (Exc TypeError) ''bad''),
        OutputStage plain_builtins] (PInt 7)
       = Inl (PyExc (Exc OSError) ''stream closed'')
   \<and> run_pipeline
       (plain_builtins\<lparr>py_print := rejecting ''Recovery initiated: Switching to backup processor''\<rparr>)
       [InputStage plain_builtins, raising_stage (PyExc (Exc TypeError) ''bad''),
        OutputStage plain_builtins] (PInt 7)
       = Inl (PyExc (Exc OSError) ''stream closed'')"
proof -
  have p: "run_stages B [InputStage plain_builtins] 1 (PInt 7) = (Completed (PInt 7), [1], [])"
    for B
    by (simp add: try_body_def InputStage_def InputStage_line_def)
  have t: "try_body (Suc (length [InputStage plain_builtins])) (raising_stage e) (PInt 7)
             = (Inl e, [2], [])" for e
    by (simp add: try_body_def raising_stage_def)
  have l: "stage_error_line (Suc (length [InputStage plain_builtins])) ''bad''
             = ''Error detected in Stage 2: bad''"
    by (simp add: stage_error_line_def str_of_nat_digit digit_char_def)
  note T = run_pipeline_fault_handling[THEN conjunct1, rule_format, OF conjI, OF p t]
  have a: "run_pipeline plain_builtins
     [InputStage plain_builtins, raising_stage (PyExc (Exc TypeError) ''bad''),
      OutputStage plain_builtins] (PInt 7)
     = Inr (PStr ''Recovery successful: Pipeline restored, processing resumed'')
   \<and> stages_called plain_builtins
       [InputStage plain_builtins, raising_stage (PyExc (Exc TypeError) ''bad''),
        OutputStage plain_builtins] (PInt 7) = [1, 2]"
    using T[where B = plain_builtins and e = "PyExc (Exc TypeError) ''bad''"
        and post = "[OutputStage plain_builtins]" and msg = "''bad''"]
    by (simp add: plain_builtins_def)
  have b: "run_pipeline plain_builtins
       [InputStage plain_builtins, raising_stage (PyExc KeyboardInterrupt ''stop''),
        OutputStage plain_builtins] (PInt 7)
       = Inl (PyExc KeyboardInterrupt ''stop'')"
    using T[where B = plain_builtins and e = "PyExc KeyboardInterrupt ''stop''"
        and post = "[OutputStage plain_builtins]"]
    by simp
  have c: "run_pipeline plain_builtins
       [InputStage plain_builtins,
        raising_stage (PyExcBadStr (Exc TypeError) (PyExc (Exc ValueError) ''no text'')),
        OutputStage plain_builtins] (PInt 7)
       = Inl (PyExc (Exc ValueError) ''no text'')"
    using T[where B = plain_builtins
        and e = "PyExcBadStr (Exc TypeError) (PyExc (Exc ValueError) ''no text'')"
        and post = "[OutputStage plain_builtins]" and x = "PyExc (Exc ValueError) ''no text''"]
    by simp
  have d: "run_pipeline (plain_builtins\<lparr>py_print := rejecting ''Error detected in Stage 2: bad''\<rparr>)
       [InputStage plain_builtins, raising_stage (PyExc (Exc TypeError) ''bad''),
        OutputStage plain_builtins] (PInt 7)
       = Inl (PyExc (Exc OSError) ''stream closed'')"
    using T[where B = "plain_builtins\<lparr>py_print := rejecting ''Error detected in Stage 2: bad''\<rparr>"
        and e = "PyExc (Exc TypeError) ''bad''"
        and post = "[OutputStage plain_builtins]" and msg = "''bad''"
        and f = "(OSError, ''stream closed'')"] l
    by (simp add: rejecting_def raise_failure_def)
  have e: "run_pipeline
       (plain_builtins\<lparr>py_print := rejecting ''Recovery initiated: Switching to backup processor''\<rparr>)
       [InputStage plain_builtins, raising_stage (PyExc (Exc TypeError) ''bad''),
        OutputStage plain_builtins] (PInt 7)
       = Inl (PyExc (Exc OSError) ''stream closed'')"
    using T[where B = "plain_builtins\<lparr>py_print := rejecting ''Recovery initiated: Switching to backup processor''\<rparr>"
        and e = "PyExc (Exc TypeError) ''bad''"
        and post = "[OutputStage plain_builtins]" and msg = "''bad''"
        and f = "(OSError, ''stream closed'')"] l
    by (simp add: rejecting_def raise_failure_def recovery_line_def)
  from a b c d e show ?thesis by blast
qed

text \<open>
  The counterexample to C1 as written: a pipeline whose only stage raises
  \<open>SystemExit\<close> hands that exception to its caller.
\<close>

theorem run_pipeline_SystemExit_propagates:
  "run_pipeline plain_builtins [raising_stage (PyExc SystemExit ''stop'')] PNone
     = Inl (PyExc SystemExit ''stop'')"
  by (simp add: run_pipeline_def raising_stage_def try_body_def)

text \<open>
  C2. On the three stages of the repository and a console that takes the three
  lines printed, the input \<open>FAIL_TEST\<close> passes stage 1, which prints it and
  returns it unchanged; at stage 2 the body of the \<open>try\<close> raises \<open>ValueError\<close>
  before the stage is called; the run leaves through the handler, which reports
  stage 2, and returns exactly the recovery string. The only stage whose
  \<open>process\<close> was called is stage 1: stage 2 is neither run nor retried, stage 3
  is not reached.
\<close>

theorem fail_test_recovers:
  assumes "py_print B ''Input: FAIL_TEST'' = None"
    and "py_print B ''Error detected in Stage 2: Invalid data format'' = None"
    and "py_print B ''Recovery initiated: Switching to backup processor'' = None"
  shows "run_pipeline B (three_stages B) (PStr ''FAIL_TEST'')
           = Inr (PStr ''Recovery successful: Pipeline restored, processing resumed'')
         \<and> run_stages B [InputStage B] 1 (PStr ''FAIL_TEST'')
             = (Completed (PStr ''FAIL_TEST''), [1], [''Input: FAIL_TEST''])
         \<and> try_body 2 (TransformStage B) (PStr ''FAIL_TEST'')
             = (Inl (PyExc (Exc ValueError) ''Invalid data format''), [], [])
         \<and> run_stages B (three_stages B) 1 (PStr ''FAIL_TEST'')
             = (Recovered, [1],
                [''Input: FAIL_TEST'', ''Error detected in Stage 2: Invalid data format'',
                 ''Recovery initiated: Switching to backup processor''])"
  using assms
  by (simp add: run_pipeline_def three_stages_def try_body_def InputStage_def
      InputStage_line_def print_then_def starts_with_def handler_def stage_error_line_def
      recovery_line_def recovery_message_def str_of_nat_digit digit_char_def)

theorem fail_test_recovers_witness:
  "run_stages plain_builtins (three_stages plain_builtins) 1 (PStr ''FAIL_TEST'')
     = (Recovered, [1],
        [''Input: FAIL_TEST'', ''Error detected in Stage 2: Invalid data format'',
         ''Recovery initiated: Switching to backup processor''])
   \<and> run_pipeline plain_builtins (three_stages plain_builtins) (PStr ''FAIL_TEST'')
       = Inr (PStr ''Recovery successful: Pipeline restored, processing resumed'')"
proof -
  have h: "py_print plain_builtins line = None" for line
    by (simp add: plain_builtins_def)
  from fail_test_recovers[OF h h h] show ?thesis by simp
qed

text \<open>
  C3, as amended. The claim as written fails: a stage can raise on an input that
  is not the sentinel, and the pipeline then returns the recovery string. What
  holds: on an input that is not a string containing \<open>FAIL_TEST\<close> and on which
  the three stages return, the stages are called in the order 1, 2, 3, each on
  what the stage before returned, the Input stage returns the input unchanged,
  and the result is the Output stage applied to the Transform stage applied to
  the input.
\<close>

theorem non_sentinel_runs_all_stages:
  assumes "\<not> is_fail_test data"
    and "InputStage B data = (Inr a, out1)"
    and "TransformStage B a = (Inr b, out2)"
    and "OutputStage B b = (Inr c, out3)"
  shows "run_stages B (three_stages B) 1 data = (Completed c, [1, 2, 3], out1 @ out2 @ out3)
         \<and> run_pipeline B (three_stages B) data = Inr c
         \<and> a = data
         \<and> b = TransformStage_process data
         \<and> OutputStage_process B (TransformStage_process data) = Inr c"
proof -
  have a: "a = data"
    using assms(2) by (rule InputStage_returns)
  have b: "b = TransformStage_process data"
    using assms(3) TransformStage_returns a by blast
  have c: "OutputStage_process B (TransformStage_process data) = Inr c"
    using assms(4) OutputStage_returns b by blast
  have r: "run_stages B (three_stages B) 1 data = (Completed c, [1, 2, 3], out1 @ out2 @ out3)"
    using assms a by (simp add: three_stages_def try_body_def)
  from a b c r show ?thesis by (simp add: run_pipeline_def)
qed

theorem non_sentinel_runs_all_stages_witness:
  "run_stages plain_builtins (three_stages plain_builtins) 1 (PStr ''user, action, timestamp'')
     = (Completed (PStr ''User activity logged: 1 actions processed''), [1, 2, 3],
        [''Input: '' @ quoted ''user, action, timestamp'',
         ''Transform: Parsed and structured data''])
   \<and> run_pipeline plain_builtins (three_stages plain_builtins) (PStr ''user, action, timestamp'')
       = Inr (PStr ''User activity logged: 1 actions processed'')"
proof -
  have h: "\<not> is_fail_test (PStr ''user, action, timestamp'')"
    by (simp add: starts_with_def)
  have i: "InputStage plain_builtins (PStr ''user, action, timestamp'')
             = (Inr (PStr ''user, action, timestamp''),
                [''Input: '' @ quoted ''user, action, timestamp''])"
    by (simp add: InputStage_def InputStage_line_def print_then_def plain_builtins_def
        starts_with_def)
  have t: "TransformStage plain_builtins (PStr ''user, action, timestamp'')
             = (Inr (PList [PStr ''user'', PStr '' action'', PStr '' timestamp'']),
                [''Transform: Parsed and structured data''])"
    by (simp add: TransformStage_def TransformStage_line_def TransformStage_process_def
        print_then_def plain_builtins_def)
  have o: "OutputStage plain_builtins (PList [PStr ''user'', PStr '' action'', PStr '' timestamp''])
             = (Inr (PStr ''User activity logged: 1 actions processed''), [])"
    by (simp add: OutputStage_def OutputStage_process_def str_of_int_def str_of_nat_digit
        digit_char_def)
  from non_sentinel_runs_all_stages[OF h i t o] show ?thesis by simp
qed

text \<open>
  The counterexample to C3 as written: the int \<open>10 ^ 4300\<close> is not the sentinel;
  the three stages are called in order, \<open>str(data)\<close> raises \<open>ValueError\<close> in the
  Output stage, and the pipeline returns the recovery string, not a result of
  the Output stage.
\<close>

theorem long_int_is_recovered:
  "\<not> is_fail_test (PInt (10 ^ 4300))
   \<and> OutputStage_process plain_builtins (TransformStage_process (PInt (10 ^ 4300)))
       = Inl (ValueError, int_limit_message)
   \<and> run_pipeline plain_builtins (three_stages plain_builtins) (PInt (10 ^ 4300))
       = Inr (PStr ''Recovery successful: Pipeline restored, processing resumed'')
   \<and> stages_called plain_builtins (three_stages plain_builtins) (PInt (10 ^ 4300)) = [1, 2, 3]"
proof -
  have "\<not> is_fail_test (PInt int_str_limit)
   \<and> OutputStage_process plain_builtins (TransformStage_process (PInt int_str_limit))
       = Inl (ValueError, int_limit_message)
   \<and> run_pipeline plain_builtins (three_stages plain_builtins) (PInt int_str_limit)
       = Inr (PStr ''Recovery successful: Pipeline restored, processing resumed'')
   \<and> stages_called plain_builtins (three_stages plain_builtins) (PInt int_str_limit) = [1, 2, 3]"
    by (simp add: run_pipeline_def stages_called_def three_stages_def try_body_def
        InputStage_def InputStage_line_def TransformStage_def TransformStage_line_def
        TransformStage_process_def OutputStage_def OutputStage_process_def py_str_long_int
        handler_def raise_failure_def plain_builtins_def recovery_message_def)
  from this[unfolded int_str_limit_def] show ?thesis .
qed

text \<open>
  C5, as amended. The claim as written fails: for a list, \<open>OutputStage.process\<close>
  renders \<open>len(data) - 2\<close>, not the number of items. What holds: the rendered
  number is the length of the list minus two; for the list that the Transform
  stage makes of a text with at least one comma, it is the number of commas
  minus one.
\<close>

theorem output_renders_length_minus_two:
  "OutputStage_process B (PList xs) =
     Inr (PStr (''User activity logged: '' @ str_of_int (int (length xs) - 2)
                  @ '' actions processed''))
   \<and> (CHR '','' \<in> set s \<longrightarrow>
        OutputStage_process B (TransformStage_process (PStr s)) =
          Inr (PStr (''User activity logged: '' @ str_of_nat (count_list s CHR '','' - 1)
                       @ '' actions processed'')))"
proof (intro conjI impI)
  show "OutputStage_process B (PList xs) =
     Inr (PStr (''User activity logged: '' @ str_of_int (int (length xs) - 2)
                  @ '' actions processed''))"
    by (simp add: OutputStage_process_def)
next
  assume a: "CHR '','' \<in> set s"
  then have pos: "0 < count_list s CHR '',''"
    using count_list_0_iff[of s "CHR '',''"] by fastforce
  have "int (length (map PStr (py_split CHR '','' s))) - 2 = int (count_list s CHR '','' - 1)"
    using pos by (simp add: length_py_split)
  then have "str_of_int (int (length (map PStr (py_split CHR '','' s))) - 2)
               = str_of_nat (count_list s CHR '','' - 1)"
    by (simp only: str_of_int_nat)
  with a show "OutputStage_process B (TransformStage_process (PStr s)) =
          Inr (PStr (''User activity logged: '' @ str_of_nat (count_list s CHR '','' - 1)
                       @ '' actions processed''))"
    by (simp only: OutputStage_process_def TransformStage_process_def pyval.case if_True)
qed

theorem output_renders_length_minus_two_witness:
  "OutputStage_process plain_builtins (TransformStage_process (PStr ''user, action, timestamp''))
     = Inr (PStr ''User activity logged: 1 actions processed'')"
proof -
  have h: "CHR '','' \<in> set ''user, action, timestamp''"
    by simp
  have n: "str_of_nat (count_list ''user, action, timestamp'' CHR '','' - 1) = ''1''"
    by code_simp
  from output_renders_length_minus_two[of plain_builtins "[]" "''user, action, timestamp''"] h n
  show ?thesis by simp
qed

text \<open>
  The counterexample to C5 as written: the Transform stage splits
  \<open>user, action, timestamp\<close> into three items, and the Output stage reports 1.
\<close>

theorem output_count_is_not_length:
  "TransformStage_process (PStr ''user, action, timestamp'')
     = PList [PStr ''user'', PStr '' action'', PStr '' timestamp'']
   \<and> OutputStage_process plain_builtins
        (PList [PStr ''user'', PStr '' action'', PStr '' timestamp''])
       = Inr (PStr ''User activity logged: 1 actions processed'')
   \<and> OutputStage_process plain_builtins
        (PList [PStr ''user'', PStr '' action'', PStr '' timestamp''])
       \<noteq> Inr (PStr (''User activity logged: ''
                 @ str_of_nat (length [PStr ''user'', PStr '' action'', PStr '' timestamp''])
                 @ '' actions processed''))"
  by (simp add: TransformStage_process_def OutputStage_process_def str_of_int_def
      str_of_nat_digit digit_char_def)

section \<open>The streams\<close>

text \<open>
  C4. When a batch is empty or holds no number, \<open>SensorStream.process_batch\<close>
  returns one of its two no-data strings: \<open>No data processed\<close> for the empty
  batch, \<open>No valid numeric data\<close> otherwise. The mean is not computed: the result
  does not depend on the division, and it is not the error string that a
  division by zero would leave.
\<close>

theorem sensor_no_data_no_division:
  assumes "filter is_number data_batch = []"
  shows "SensorStream_process_batch B data_batch =
           (if data_batch = [] then ''No data processed'' else ''No valid numeric data'')
         \<and> SensorStream_process_batch (B\<lparr>true_div := dv\<rparr>) data_batch =
             SensorStream_process_batch B data_batch
         \<and> SensorStream_process_batch B data_batch \<noteq>
             ''Error processing sensor batch: division by zero''"
  using assms by (simp add: sensor_no_valid_data)

theorem sensor_no_data_no_division_witness:
  "SensorStream_process_batch plain_builtins [] = ''No data processed''
   \<and> SensorStream_process_batch plain_builtins [PStr ''n/a'', PNone] = ''No valid numeric data''"
proof -
  have h1: "filter is_number [] = []"
    by simp
  have h2: "filter is_number [PStr ''n/a'', PNone] = []"
    by (simp add: is_number_def)
  from sensor_no_data_no_division[OF h1, of plain_builtins]
    sensor_no_data_no_division[OF h2, of plain_builtins]
  show ?thesis by simp
qed

text \<open>
  C6. With the criterion \<open>High-priority\<close>, \<open>SensorStream.filter_data\<close> keeps,
  in input order, exactly the numbers that lie outside the closed interval from
  0 to 50. The bounds 0 and 50 are dropped, and the batch 100, 20, 22, -10
  gives 100, -10.
\<close>

theorem sensor_filter_outside_interval:
  "SensorStream_filter_data data_batch (Some ''High-priority'')
     = filter (spec_outside_interval 0 50) data_batch
   \<and> SensorStream_filter_data [PInt 100, PInt 20, PInt 22, PInt (- 10)] (Some ''High-priority'')
       = [PInt 100, PInt (- 10)]
   \<and> SensorStream_filter_data [PInt 0, PInt 50, PInt 51, PInt (- 1)] (Some ''High-priority'')
       = [PInt 51, PInt (- 1)]"
  by (simp add: SensorStream_filter_data_def sensor_high_priority_spec[abs_def])

text \<open>
  C7, as amended. The claim as written fails: when the sum or its rendering
  raises, \<open>TransactionStream.process_batch\<close> returns an error string. What
  holds, for every batch:
  \<^item> without floats and with a sum of at most 4300 digits, the result reports the
    number of numeric items and their sum, with \<open>+\<close> before the sum exactly
    when the sum is not negative;
  \<^item> with a float, when the float sum and its rendering succeed, the result
    reports the number of numeric items and the rendered sum, with \<open>+\<close> exactly
    when the sum is at least 0;
  \<^item> in the three remaining cases (an int sum of more than 4300 digits, a float
    sum that raises, a rendering that raises) the result is
    \<open>Error processing transaction batch: \<close> followed by the message.
  The batch 100, -150, 75 gives 3 operations and a net flow of +25.
\<close>

theorem transaction_count_and_net_flow:
  "(\<not> list_ex is_float data_batch
      \<and> \<bar>sum_list (map int_of (filter is_number data_batch))\<bar> < int_str_limit \<longrightarrow>
      TransactionStream_process_batch B data_batch =
        ''Transaction data: '' @ str_of_nat (length (filter is_number data_batch))
          @ '' operations, net flow: ''
          @ (if 0 \<le> sum_list (map int_of (filter is_number data_batch)) then ''+'' else [])
          @ str_of_int (sum_list (map int_of (filter is_number data_batch))) @ '' units'')
   \<and> (list_ex is_float data_batch
        \<and> float_sum B (filter is_number data_batch) = Inr fl
        \<and> str_other B (PFloat fl) = Inr rendered \<longrightarrow>
      TransactionStream_process_batch B data_batch =
        ''Transaction data: '' @ str_of_nat (length (filter is_number data_batch))
          @ '' operations, net flow: ''
          @ (if num_ge_int (FloatVal fl) 0 then ''+'' else [])
          @ rendered @ '' units'')
   \<and> (\<not> list_ex is_float data_batch
        \<and> int_str_limit \<le> \<bar>sum_list (map int_of (filter is_number data_batch))\<bar> \<longrightarrow>
      TransactionStream_process_batch B data_batch =
        ''Error processing transaction batch: '' @ int_limit_message)
   \<and> (list_ex is_float data_batch
        \<and> float_sum B (filter is_number data_batch) = Inl msg \<longrightarrow>
      TransactionStream_process_batch B data_batch =
        ''Error processing transaction batch: '' @ msg)
   \<and> (list_ex is_float data_batch
        \<and> float_sum B (filter is_number data_batch) = Inr fl
        \<and> str_other B (PFloat fl) = Inl f \<longrightarrow>
      TransactionStream_process_batch B data_batch =
        ''Error processing transaction batch: '' @ snd f)"
  by (simp add: TransactionStream_process_batch_def py_sum_def is_float_filter_number
      net_flow_sign_def py_str_def Let_def)

theorem transaction_count_and_net_flow_witness:
  "TransactionStream_process_batch plain_builtins [PInt 100, PInt (- 150), PInt 75]
     = ''Transaction data: 3 operations, net flow: +25 units''
   \<and> TransactionStream_process_batch plain_builtins [PInt 100, PStr ''n/a'', PInt (- 150)]
     = ''Transaction data: 2 operations, net flow: -50 units''
   \<and> TransactionStream_process_batch float_sample_builtins [PFloat (Finite (3 / 2)), PInt 2]
     = ''Transaction data: 2 operations, net flow: +3.5 units''
   \<and> TransactionStream_process_batch plain_builtins [PFloat (Finite (3 / 2)), PInt 2]
     = ''Error processing transaction batch: unsupported''"
proof -
  have a: "TransactionStream_process_batch plain_builtins [PInt 100, PInt (- 150), PInt 75]
     = ''Transaction data: 3 operations, net flow: +25 units''"
    using transaction_count_and_net_flow[of "[PInt 100, PInt (- 150), PInt 75]" plain_builtins]
      int_str_limit_large
    by (simp add: is_number_def str_of_int_def str_of_nat.simps digit_char_def)
  have b: "TransactionStream_process_batch plain_builtins [PInt 100, PStr ''n/a'', PInt (- 150)]
     = ''Transaction data: 2 operations, net flow: -50 units''"
    using transaction_count_and_net_flow[of "[PInt 100, PStr ''n/a'', PInt (- 150)]" plain_builtins]
      int_str_limit_large
    by (simp add: is_number_def str_of_int_def str_of_nat.simps digit_char_def)
  have c: "TransactionStream_process_batch float_sample_builtins [PFloat (Finite (3 / 2)), PInt 2]
     = ''Transaction data: 2 operations, net flow: +3.5 units''"
    using transaction_count_and_net_flow[of "[PFloat (Finite (3 / 2)), PInt 2]"
        float_sample_builtins "Finite (7 / 2)" "''3.5''"]
    by (simp add: is_number_def float_sample_builtins_def plain_builtins_def
        str_of_nat_digit digit_char_def)
  have d: "TransactionStream_process_batch plain_builtins [PFloat (Finite (3 / 2)), PInt 2]
     = ''Error processing transaction batch: unsupported''"
    using transaction_count_and_net_flow[of "[PFloat (Finite (3 / 2)), PInt 2]"
        plain_builtins _ _ "''unsupported''"]
    by (simp add: is_number_def plain_builtins_def)
  from a b c d show ?thesis by blast
qed

text \<open>
  The counterexample to C7 as written: on the batch that holds the int
  \<open>10 ^ 4300\<close> the result is the error string, not a count and a net flow.
\<close>

theorem long_sum_is_an_error:
  "TransactionStream_process_batch plain_builtins [PInt (10 ^ 4300)]
     = ''Error processing transaction batch: Exceeds the limit (4300 digits) for integer string conversion; use sys.set_int_max_str_digits() to increase the limit''
   \<and> TransactionStream_process_batch plain_builtins [PInt (10 ^ 4300)]
     \<noteq> ''Transaction data: 1 operations, net flow: +'' @ str_of_int (10 ^ 4300) @ '' units''"
proof -
  have "TransactionStream_process_batch plain_builtins [PInt int_str_limit]
     = ''Error processing transaction batch: Exceeds the limit (4300 digits) for integer string conversion; use sys.set_int_max_str_digits() to increase the limit''
   \<and> TransactionStream_process_batch plain_builtins [PInt int_str_limit]
     \<noteq> ''Transaction data: 1 operations, net flow: +'' @ str_of_int int_str_limit @ '' units''"
    by (simp add: TransactionStream_process_batch_def py_sum_def is_number_def
        py_str_long_int int_limit_message_def)
  from this[unfolded int_str_limit_def] show ?thesis .
qed

text \<open>
  C8. For each kind of stream and every batch, \<open>filter_data\<close> returns the batch
  unchanged when the criterion is \<open>None\<close> or a string other than
  \<open>High-priority\<close>.
\<close>

theorem filter_data_identity:
  assumes "criteria \<noteq> Some ''High-priority''"
  shows "filter_data s data_batch criteria = data_batch"
  using assms
  by (cases s)
    (simp_all add: SensorStream_filter_data_def TransactionStream_filter_data_def
      EventStream_filter_data_def)

theorem filter_data_identity_witness:
  "filter_data (SensorStream ''SENSOR_001'') [PInt 100, PInt 20] None = [PInt 100, PInt 20]
   \<and> filter_data (TransactionStream ''TRANS_001'') [PInt 10, PInt 500] (Some ''Low-priority'')
       = [PInt 10, PInt 500]
   \<and> filter_data (EventStream ''EVENT_001'') [PStr ''login'', PStr ''error''] (Some ''high-priority'')
       = [PStr ''login'', PStr ''error'']"
proof -
  have h1: "(None :: string option) \<noteq> Some ''High-priority''"
    by simp
  have h2: "Some ''Low-priority'' \<noteq> Some ''High-priority''"
    by simp
  have h3: "Some ''high-priority'' \<noteq> Some ''High-priority''"
    by simp
  from filter_data_identity[OF h1] filter_data_identity[OF h2] filter_data_identity[OF h3]
  show ?thesis by simp
qed

text \<open>
  C9. \<open>StreamProcessor.process_streams\<close> produces one result for each registered
  stream whose \<open>stream_id\<close> is a key of the data map, in registration order, and
  nothing else. A key of the data map that is the identifier of no registered
  stream changes nothing: the results are those of the data map without it.
\<close>

theorem unknown_identifier_is_skipped:
  assumes "k \<notin> stream_id ` set streams"
  shows "process_streams B streams (data_map(k \<mapsto> batch)) = process_streams B streams data_map
         \<and> process_streams B streams data_map =
             map (\<lambda>s. process_batch B s (the (data_map (stream_id s))))
               (filter (\<lambda>s. stream_id s \<in> dom data_map) streams)"
  using process_streams_unknown[OF assms] process_streams_map by blast

theorem unknown_identifier_is_skipped_witness:
  "process_streams plain_builtins
     [SensorStream ''SENSOR_001'', TransactionStream ''TRANS_001'']
     ([''TRANS_001'' \<mapsto> [PInt 5]](''GHOST_999'' \<mapsto> [PInt 1]))
     = [''Transaction data: 1 operations, net flow: +5 units'']"
proof -
  have h: "''GHOST_999'' \<notin> stream_id ` set [SensorStream ''SENSOR_001'', TransactionStream ''TRANS_001'']"
    by simp
  have v: "process_streams plain_builtins
             [SensorStream ''SENSOR_001'', TransactionStream ''TRANS_001'']
             [''TRANS_001'' \<mapsto> [PInt 5]]
           = [''Transaction data: 1 operations, net flow: +5 units'']"
    by (simp add: TransactionStream_process_batch_def py_sum_def is_number_def
        net_flow_sign_def py_str_small_int str_of_int_def str_of_nat_digit digit_char_def)
  from unknown_identifier_is_skipped[OF h, of plain_builtins "[''TRANS_001'' \<mapsto> [PInt 5]]" "[PInt 1]"] v
  show ?thesis by simp
qed

text \<open>
  C10. On a batch that is empty or holds no number,
  \<open>TransactionStream.process_batch\<close> has no no-data branch: it returns its
  usual summary, with 0 operations and the net flow \<open>+0\<close>. \<open>SensorStream\<close>
  returns one of its two no-data strings on the same batch.
\<close>

theorem transaction_no_data_is_plus_zero:
  assumes "filter is_number data_batch = []"
  shows "TransactionStream_process_batch B data_batch =
           ''Transaction data: 0 operations, net flow: +0 units''
         \<and> SensorStream_process_batch B data_batch \<noteq> TransactionStream_process_batch B data_batch"
proof -
  have t: "TransactionStream_process_batch B data_batch =
           ''Transaction data: 0 operations, net flow: +0 units''"
    using assms
    by (simp add: TransactionStream_process_batch_def py_sum_def net_flow_sign_def
        py_str_small_int str_of_int_def str_of_nat_digit digit_char_def)
  moreover have "SensorStream_process_batch B data_batch
                   \<noteq> ''Transaction data: 0 operations, net flow: +0 units''"
    using sensor_no_valid_data[OF assms, of B] by simp
  ultimately show ?thesis by simp
qed

theorem transaction_no_data_is_plus_zero_witness:
  "TransactionStream_process_batch plain_builtins []
     = ''Transaction data: 0 operations, net flow: +0 units''
   \<and> TransactionStream_process_batch plain_builtins [PStr ''n/a'', PNone]
       = ''Transaction data: 0 operations, net flow: +0 units''"
proof -
  have h1: "filter is_number [] = []"
    by simp
  have h2: "filter is_number [PStr ''n/a'', PNone] = []"
    by (simp add: is_number_def)
  from transaction_no_data_is_plus_zero[OF h1, of plain_builtins]
    transaction_no_data_is_plus_zero[OF h2, of plain_builtins]
  show ?thesis by simp
qed

end
